theory Spec2Isabelle
  imports Main "HOL-Library.Multiset"
begin

unbundle bit_operations_syntax

section \<open>simplestruct: fields, the metaclass and Struct instances\<close>

text \<open>
  A shallow embedding of \<^verbatim>\<open>simplestruct/struct.py\<close>. Python objects that the code compares
  by identity (the \<^verbatim>\<open>Field\<close> descriptors) live in a store and are named by their
  address; classes live in a class table and are named by their index; instances are
  values. Every \<^verbatim>\<open>raise\<close> is a result \<open>Inl e\<close>.
\<close>

subsection \<open>Exceptions\<close>

datatype error =
    AttributeError string
  | TypeError string
  | KeyError "string option"
  | NameError string

subsection \<open>hash\_seq\<close>


subsection \<open>Field descriptors\<close>

text \<open>
  A descriptor class is \<^verbatim>\<open>Field\<close> or a subclass. The docstring of \<^verbatim>\<open>Field\<close> names what a
  subclass may override: \<^verbatim>\<open>__set__\<close> (type restrictions or coercion), \<^verbatim>\<open>eq\<close> and \<^verbatim>\<open>hash\<close>.
  A class is the record of these three: \<open>fc_check\<close> is what an overriding \<^verbatim>\<open>__set__\<close> does
  with the value before it hands it to \<^verbatim>\<open>Field.__set__\<close> (reject it, or replace it),
  \<open>fc_eq\<close> is \<^verbatim>\<open>eq\<close>, \<open>fc_hash\<close> is \<^verbatim>\<open>hash\<close>, which may raise.
\<close>

record 'v field_class =
  fc_check :: "'v \<Rightarrow> error + 'v"
  fc_eq :: "'v \<Rightarrow> 'v \<Rightarrow> bool"
  fc_hash :: "'v \<Rightarrow> error + int"

text \<open>A descriptor object: its class and its \<^verbatim>\<open>name\<close> attribute (\<^verbatim>\<open>None\<close> until bound).\<close>

record 'v field =
  f_class :: "'v field_class"
  f_name :: "string option"

text \<open>
  An instance: its class (an index of the class table) and its \<^verbatim>\<open>__dict__\<close>. The dictionary
  holds what the field descriptors store under their names, and what is assigned to the
  instance under a name that no descriptor guards: \<^verbatim>\<open>_initialized\<close>, which \<^verbatim>\<open>Struct.__new__\<close>
  and \<^verbatim>\<open>MetaStruct.__call__\<close> set, and \<^verbatim>\<open>_immutable\<close> when someone sets it on the instance.
\<close>

record 'v inst =
  inst_cls :: nat
  inst_dict :: "string option \<rightharpoonup> 'v"

text \<open>
  What a class namespace binds a name to: a descriptor class itself (the shorthand
  \<^verbatim>\<open>x = Field\<close>), a descriptor object (by address), an \<^verbatim>\<open>__init__\<close> method, or any other
  value, of which the code only ever reads the truth value (\<^verbatim>\<open>_inherit_fields\<close>,
  \<^verbatim>\<open>_immutable\<close>).
\<close>

datatype 'v attr =
    AFieldClass "'v field_class"
  | AFieldObj nat
  | AInit "'v inst \<Rightarrow> 'v list \<Rightarrow> (string \<times> 'v) list \<Rightarrow> error + 'v inst"
  | AValue bool

fun truthy :: "'v attr \<Rightarrow> bool" where
  "truthy (AValue b) = b"
| "truthy _ = True"

text \<open>
  A class: name, whether \<^verbatim>\<open>MetaStruct\<close> made it (\<^verbatim>\<open>isinstance(cls, MetaStruct)\<close>), method
  resolution order (class indices, the class itself first), namespace, and the two
  attributes \<^verbatim>\<open>MetaStruct.__new__\<close> sets, \<^verbatim>\<open>_struct\<close> (descriptor addresses) and \<^verbatim>\<open>_signature\<close>
  (parameter names); a class that \<^verbatim>\<open>type\<close> made has neither, and the two lists are empty.
\<close>

record 'v struct_class =
  cls_name :: string
  cls_meta :: bool
  cls_mro :: "nat list"
  cls_dict :: "(string \<times> 'v attr) list"
  cls_struct :: "nat list"
  cls_signature :: "string option list"

text \<open>
  The state: the interpreter's truth test of a value (\<^verbatim>\<open>bool(v)\<close>, what \<^verbatim>\<open>if\<close>, \<^verbatim>\<open>and\<close> and
  \<^verbatim>\<open>not\<close> apply) and its values \<^verbatim>\<open>True\<close> and \<^verbatim>\<open>False\<close>, neither of which ever changes; the
  store of descriptors; the class table. \<^verbatim>\<open>object\<close> is class 0 and \<^verbatim>\<open>Struct\<close> is class 1.
\<close>

record 'v state =
  st_truth :: "'v \<Rightarrow> bool"
  st_bool :: "bool \<Rightarrow> 'v"
  st_fields :: "'v field list"
  st_classes :: "'v struct_class list"

definition Object :: nat where
  "Object = 0"

definition Struct :: nat where
  "Struct = 1"

subsubsection \<open>Attribute lookup on a class\<close>

fun lookup_mro :: "'v struct_class list \<Rightarrow> nat list \<Rightarrow> string \<Rightarrow> 'v attr option" where
  "lookup_mro cs [] n = None"
| "lookup_mro cs (c # rest) n =
     (if c < length cs then
        (case map_of (cls_dict (cs ! c)) n of
           Some a \<Rightarrow> Some a
         | None \<Rightarrow> lookup_mro cs rest n)
      else lookup_mro cs rest n)"

definition class_attr :: "'v state \<Rightarrow> nat \<Rightarrow> string \<Rightarrow> 'v attr option" where
  "class_attr st c n =
     (if c < length (st_classes st) then lookup_mro (st_classes st) (cls_mro (st_classes st ! c)) n
      else None)"

subsubsection \<open>Field methods\<close>

text \<open>\<^verbatim>\<open>Field()\<close>: a new object whose name is \<^verbatim>\<open>None\<close>. Returns the store and the address.\<close>

definition Field_init :: "'v field list \<Rightarrow> 'v field_class \<Rightarrow> 'v field list \<times> nat" where
  "Field_init fs fc = (fs @ [\<lparr>f_class = fc, f_name = None\<rparr>], length fs)"

text \<open>\<^verbatim>\<open>copy\<close>: \<^verbatim>\<open>type(self)()\<close>.\<close>

definition Field_copy :: "'v field list \<Rightarrow> 'v field \<Rightarrow> 'v field list \<times> nat" where
  "Field_copy fs f = Field_init fs (f_class f)"

text \<open>\<^verbatim>\<open>__get__(self, inst, value)\<close>; \<open>None\<close> is access on the class.\<close>

definition Field_get :: "'v field \<Rightarrow> 'v inst option \<Rightarrow> error + 'v" where
  "Field_get f inst =
     (case inst of
        None \<Rightarrow> Inl (AttributeError ''Cannot retrieve field from class'')
      | Some i \<Rightarrow>
          (case inst_dict i (f_name f) of
             None \<Rightarrow> Inl (KeyError (f_name f))
           | Some v \<Rightarrow> Inr v))"


text \<open>The descriptor at an address.\<close>

definition deref :: "'v field list \<Rightarrow> nat \<Rightarrow> 'v field option" where
  "deref fs r = (if r < length fs then Some (fs ! r) else None)"

text \<open>
  \<^verbatim>\<open>inst.name\<close>, where the code uses the value as a condition (\<^verbatim>\<open>inst._immutable\<close>,
  \<^verbatim>\<open>inst._initialized\<close>). Python looks the name up in the classes of the resolution
  order. A data descriptor found there (a \<^verbatim>\<open>Field\<close> object: it has \<^verbatim>\<open>__set__\<close>) answers
  with its \<^verbatim>\<open>__get__\<close>. Otherwise the instance's own dictionary comes first and the class
  attribute last; a name found nowhere is an AttributeError. The result is the truth
  value of what was found.
\<close>

definition getattr_truth :: "'v state \<Rightarrow> 'v inst \<Rightarrow> string \<Rightarrow> error + bool" where
  "getattr_truth st inst n =
     (case class_attr st (inst_cls inst) n of
        Some (AFieldObj r) \<Rightarrow>
          (case deref (st_fields st) r of
             None \<Rightarrow> Inl (AttributeError ''no such field'')
           | Some f \<Rightarrow>
               (case Field_get f (Some inst) of
                  Inl e \<Rightarrow> Inl e
                | Inr v \<Rightarrow> Inr (st_truth st v)))
      | ca \<Rightarrow>
          (case inst_dict inst (Some n) of
             Some v \<Rightarrow> Inr (st_truth st v)
           | None \<Rightarrow>
               (case ca of
                  Some a \<Rightarrow> Inr (truthy a)
                | None \<Rightarrow> Inl (AttributeError (''object has no attribute '' @ n)))))"

text \<open>
  \<^verbatim>\<open>__set__(self, inst, value)\<close>. \<^verbatim>\<open>inst._immutable and inst._initialized\<close> reads
  \<^verbatim>\<open>_initialized\<close> only when \<^verbatim>\<open>_immutable\<close> is true.
\<close>

definition Field_set :: "'v state \<Rightarrow> 'v field \<Rightarrow> 'v inst \<Rightarrow> 'v \<Rightarrow> error + 'v inst" where
  "Field_set st f inst v =
     (case getattr_truth st inst ''_immutable'' of
        Inl e \<Rightarrow> Inl e
      | Inr imm \<Rightarrow>
          (case (if imm then getattr_truth st inst ''_initialized'' else Inr False) of
             Inl e \<Rightarrow> Inl e
           | Inr b \<Rightarrow>
               if b then Inl (AttributeError ''Struct is immutable'')
               else Inr (inst\<lparr>inst_dict := (inst_dict inst)(f_name f \<mapsto> v)\<rparr>)))"

subsubsection \<open>Python values for the base class\<close>

text \<open>
  A fragment of Python's values, enough to show what \<^verbatim>\<open>==\<close> and \<^verbatim>\<open>hash\<close> do to a field:
  \<^verbatim>\<open>None\<close>, the two booleans, integers, strings, the float NaN and lists of integers.
  \<^verbatim>\<open>==\<close> is structural except that NaN equals nothing, itself included, and that a boolean
  is the integer 1 or 0. \<^verbatim>\<open>hash\<close> raises TypeError on a list; on the others its value
  belongs to the interpreter (string hashes change from run to run), so it is a
  parameter \<open>h\<close>. \<open>py_truth\<close> is \<^verbatim>\<open>bool(v)\<close>.
\<close>

datatype pyval = PyNone | PyBool bool | PyInt int | PyStr string | PyNaN | PyList "int list"

fun py_eq :: "pyval \<Rightarrow> pyval \<Rightarrow> bool" where
  "py_eq PyNaN _ = False"
| "py_eq _ PyNaN = False"
| "py_eq (PyBool a) (PyInt n) = ((if a then 1 else 0) = n)"
| "py_eq (PyInt n) (PyBool a) = (n = (if a then 1 else 0))"
| "py_eq a b = (a = b)"

fun py_hash :: "(pyval \<Rightarrow> int) \<Rightarrow> pyval \<Rightarrow> error + int" where
  "py_hash h (PyList xs) = Inl (TypeError ''unhashable type: list'')"
| "py_hash h v = Inr (h v)"

fun py_truth :: "pyval \<Rightarrow> bool" where
  "py_truth PyNone = False"
| "py_truth (PyBool b) = b"
| "py_truth (PyInt n) = (n \<noteq> 0)"
| "py_truth (PyStr s) = (s \<noteq> [])"
| "py_truth PyNaN = True"
| "py_truth (PyList xs) = (xs \<noteq> [])"

text \<open>
  The class \<^verbatim>\<open>Field\<close> itself: \<^verbatim>\<open>__set__\<close> stores what it is given, \<^verbatim>\<open>eq\<close> is
  \<^verbatim>\<open>val1 == val2\<close>, \<^verbatim>\<open>hash\<close> is \<^verbatim>\<open>hash(val)\<close>.
\<close>

definition Field :: "(pyval \<Rightarrow> int) \<Rightarrow> pyval field_class" where
  "Field h = \<lparr>fc_check = Inr, fc_eq = py_eq, fc_hash = py_hash h\<rparr>"

subsection \<open>MetaStruct\<close>

subsubsection \<open>The namespace of a class body\<close>

text \<open>
  \<^verbatim>\<open>__prepare__\<close> returns an empty \<^verbatim>\<open>OrderedDict\<close>; the class body then runs its bindings
  into it. Binding a name again replaces the value and keeps the name's place.
\<close>

definition MetaStruct_prepare :: "(string \<times> 'v attr) list" where
  "MetaStruct_prepare = []"

fun od_set :: "(string \<times> 'a) list \<Rightarrow> string \<Rightarrow> 'a \<Rightarrow> (string \<times> 'a) list" where
  "od_set [] k v = [(k, v)]"
| "od_set ((k', v') # d) k v = (if k' = k then (k, v) # d else (k', v') # od_set d k v)"

definition exec_body :: "(string \<times> 'v attr) list \<Rightarrow> (string \<times> 'v attr) list" where
  "exec_body body = foldl (\<lambda>d (k, v). od_set d k v) MetaStruct_prepare body"

subsubsection \<open>Bases and the method resolution order\<close>

text \<open>
  The bases of a class statement are classes of the table, made by \<^verbatim>\<open>MetaStruct\<close> or not.
  \<^verbatim>\<open>type.__new__\<close> linearises them (C3): repeatedly take the first head that is in no
  tail. \<open>None\<close> is its TypeError (no consistent order, or a base given twice).
\<close>

definition c3_head_ok :: "nat list list \<Rightarrow> nat \<Rightarrow> bool" where
  "c3_head_ok ss h = list_all (\<lambda>s. h \<notin> set (tl s)) ss"

definition c3_step :: "nat \<Rightarrow> nat list list \<Rightarrow> nat list list" where
  "c3_step h ss = map (\<lambda>s. if hd s = h then tl s else s) ss"

function c3_merge :: "nat list list \<Rightarrow> nat list option" where
  "c3_merge seqs =
     (let ss = filter (\<lambda>s. s \<noteq> []) seqs in
      if ss = [] then Some []
      else (case find (c3_head_ok ss) (map hd ss) of
              None \<Rightarrow> None
            | Some h \<Rightarrow> map_option (Cons h) (c3_merge (c3_step h ss))))"
  by pat_completeness auto
termination
proof (relation "measure (\<lambda>seqs. sum_list (map length seqs))")
  show "wf (measure (\<lambda>seqs. sum_list (map length seqs)))" by simp
next
  fix seqs ss :: "nat list list" and h
  assume ss: "ss = filter (\<lambda>s. s \<noteq> []) seqs" and "ss \<noteq> []"
    and f: "find (c3_head_ok ss) (map hd ss) = Some h"
  have le: "sum_list (map length (c3_step h xs)) \<le> sum_list (map length xs)" for xs
    unfolding c3_step_def by (induction xs) auto
  have less: "s \<in> set xs \<Longrightarrow> s \<noteq> [] \<Longrightarrow> hd s = h \<Longrightarrow>
      sum_list (map length (c3_step h xs)) < sum_list (map length xs)" for s xs
  proof (induction xs)
    case Nil
    then show ?case by simp
  next
    case (Cons a xs)
    show ?case
    proof (cases "a = s")
      case True
      with Cons.prems have "length (if hd a = h then tl a else a) < length a"
        by (cases a) auto
      with le [of xs] show ?thesis by (simp add: c3_step_def)
    next
      case False
      with Cons have "sum_list (map length (c3_step h xs)) < sum_list (map length xs)"
        by auto
      moreover have "length (if hd a = h then tl a else a) \<le> length a" by simp
      ultimately show ?thesis unfolding c3_step_def by (simp add: add_le_less_mono)
    qed
  qed
  have filt: "sum_list (map length (filter P xs)) \<le> sum_list (map length xs)"
    for P and xs :: "nat list list"
    by (induction xs) auto
  from f have "h \<in> set (map hd ss)" by (auto simp: find_Some_iff)
  then obtain s where s: "s \<in> set ss" "hd s = h" by auto
  with ss have "s \<noteq> []" by auto
  with s have "sum_list (map length (c3_step h ss)) < sum_list (map length ss)"
    by (intro less) auto
  also have "\<dots> \<le> sum_list (map length seqs)" unfolding ss by (rule filt)
  finally show "(c3_step h ss, seqs) \<in> measure (\<lambda>seqs. sum_list (map length seqs))"
    by simp
qed

declare c3_merge.simps [simp del]

definition mro_of :: "'v struct_class list \<Rightarrow> nat \<Rightarrow> nat list" where
  "mro_of cs b = (if b < length cs then cls_mro (cs ! b) else [])"

definition linearize :: "'v struct_class list \<Rightarrow> nat list \<Rightarrow> nat list option" where
  "linearize cs bs = c3_merge (map (mro_of cs) bs @ [bs])"


text \<open>A class statement without bases has the one base \<^verbatim>\<open>object\<close>.\<close>

definition type_bases :: "nat list \<Rightarrow> nat list" where
  "type_bases bases = (if bases = [] then [Object] else bases)"

text \<open>\<^verbatim>\<open>issubclass(c, d)\<close>: \<open>d\<close> is in the order of \<open>c\<close>.\<close>

definition issubclass :: "'v state \<Rightarrow> nat \<Rightarrow> nat \<Rightarrow> bool" where
  "issubclass st c d = (d \<in> set (mro_of (st_classes st) c))"

text \<open>\<^verbatim>\<open>isinstance(b, MetaStruct)\<close> for a class \<open>b\<close>, and the bases that pass it.\<close>

definition is_meta :: "'v struct_class list \<Rightarrow> nat \<Rightarrow> bool" where
  "is_meta cs b = (b < length cs \<and> cls_meta (cs ! b))"

definition struct_bases :: "'v struct_class list \<Rightarrow> nat list \<Rightarrow> nat list" where
  "struct_bases cs bases = filter (is_meta cs) bases"

subsubsection \<open>\_\_new\_\_\<close>

text \<open>The \<^verbatim>\<open>_struct\<close> of a class, by index; and the name of the descriptor at an address.\<close>

definition struct_of :: "'v struct_class list \<Rightarrow> nat \<Rightarrow> nat list" where
  "struct_of cs c = (if c < length cs then cls_struct (cs ! c) else [])"

definition name_of :: "'v field list \<Rightarrow> nat \<Rightarrow> string option" where
  "name_of fs r = (case deref fs r of None \<Rightarrow> None | Some f \<Rightarrow> f_name f)"

text \<open>\<^verbatim>\<open>namespace.get('_inherit_fields', False)\<close>, as a condition.\<close>

definition inherit_flag :: "(string \<times> 'v attr) list \<Rightarrow> bool" where
  "inherit_flag namespace =
     (case map_of namespace ''_inherit_fields'' of None \<Rightarrow> False | Some a \<Rightarrow> truthy a)"

text \<open>
  \<^verbatim>\<open>for b in bases: if isinstance(b, MetaStruct): fields += b._struct\<close>
\<close>

fun inherited :: "'v struct_class list \<Rightarrow> nat list \<Rightarrow> nat list" where
  "inherited cs [] = []"
| "inherited cs (b # bs) = (if is_meta cs b then struct_of cs b else []) @ inherited cs bs"

text \<open>
  The two tests of the loop body. A descriptor class is called, which makes an object;
  a descriptor object is taken as it is; anything else is no field. A name bound to an
  address that holds no object cannot happen in Python; here it is a NameError.
\<close>

fun as_field :: "'v field list \<Rightarrow> string \<Rightarrow> 'v attr \<Rightarrow> error + ('v field list \<times> nat) option" where
  "as_field fs fname (AFieldClass fc) = Inr (Some (Field_init fs fc))"
| "as_field fs fname (AFieldObj r) =
     (if r < length fs then Inr (Some (fs, r)) else Inl (NameError fname))"
| "as_field fs fname a = Inr None"

text \<open>\<^verbatim>\<open>f = f.copy(); f.name = fname\<close>\<close>

definition copy_named :: "'v field list \<Rightarrow> nat \<Rightarrow> string \<Rightarrow> 'v field list \<times> nat" where
  "copy_named fs r0 fname =
     (case Field_copy fs (fs ! r0) of
        (fs', r) \<Rightarrow> (fs'[r := (fs' ! r)\<lparr>f_name := Some fname\<rparr>], r))"

text \<open>
  \<^verbatim>\<open>for fname, f in namespace.items(): ...\<close> The result is the store, the addresses
  appended to \<^verbatim>\<open>fields\<close>, and the namespace with each field rebound to its copy.
\<close>

fun gather :: "'v field list \<Rightarrow> (string \<times> 'v attr) list \<Rightarrow>
    error + ('v field list \<times> nat list \<times> (string \<times> 'v attr) list)" where
  "gather fs [] = Inr (fs, [], [])"
| "gather fs ((fname, a) # rest) =
     (case as_field fs fname a of
        Inl e \<Rightarrow> Inl e
      | Inr None \<Rightarrow>
          (case gather fs rest of
             Inl e \<Rightarrow> Inl e
           | Inr (fs', rs, ns) \<Rightarrow> Inr (fs', rs, (fname, a) # ns))
      | Inr (Some (fs1, r0)) \<Rightarrow>
          (case copy_named fs1 r0 fname of
             (fs2, r) \<Rightarrow>
               (case gather fs2 rest of
                  Inl e \<Rightarrow> Inl e
                | Inr (fs', rs, ns) \<Rightarrow> Inr (fs', r # rs, (fname, AFieldObj r) # ns))))"

text \<open>
  \<^verbatim>\<open>Counter(...)\<close> keeps its keys in the order of first occurrence;
  \<^verbatim>\<open>collided = [k for k in fnames if fnames[k] > 1]\<close>.
\<close>

definition counter_keys :: "'a list \<Rightarrow> 'a list" where
  "counter_keys xs = rev (remdups (rev xs))"

definition collided :: "'a list \<Rightarrow> 'a list" where
  "collided names = filter (\<lambda>k. count_list names k > 1) (counter_keys names)"

fun join :: "string \<Rightarrow> string list \<Rightarrow> string" where
  "join sep [] = []"
| "join sep [x] = x"
| "join sep (x # y # ys) = x @ sep @ join sep (y # ys)"

definition collision_error :: "string \<Rightarrow> string option list \<Rightarrow> error" where
  "collision_error clsname cs =
     (if None \<in> set cs then TypeError ''sequence item: expected str instance, NoneType found''
      else AttributeError (''Struct '' @ clsname @ '' has colliding field name(s): ''
             @ join '', '' (map the cs)))"

text \<open>
  \<^verbatim>\<open>MetaStruct.__new__(mcls, clsname, bases, namespace)\<close>. The bases are evaluated before the
  metaclass runs, so a base that is not a class of the table is a NameError of the class
  statement. \<^verbatim>\<open>super().__new__\<close> is \<^verbatim>\<open>type.__new__\<close>, which orders the bases. The new class
  gets the next index.
\<close>

definition MetaStruct_new ::
    "'v state \<Rightarrow> string \<Rightarrow> nat list \<Rightarrow> (string \<times> 'v attr) list \<Rightarrow> error + ('v state \<times> nat)" where
  "MetaStruct_new st clsname bases namespace =
     (if \<not> list_all (\<lambda>b. b < length (st_classes st)) bases
      then Inl (NameError clsname)
      else
        let inh = (if inherit_flag namespace then inherited (st_classes st) bases else [])
        in case gather (st_fields st) namespace of
             Inl e \<Rightarrow> Inl e
           | Inr (fs, own, ns) \<Rightarrow>
               let flds = inh @ own;
                   fnames = map (name_of fs) flds
               in if length (collided fnames) > 0
                  then Inl (collision_error clsname (collided fnames))
                  else
                    (case linearize (st_classes st) (type_bases bases) of
                       None \<Rightarrow> Inl (TypeError ''Cannot create a consistent method resolution order'')
                     | Some m \<Rightarrow>
                         let cid = length (st_classes st);
                             cls = \<lparr>cls_name = clsname, cls_meta = True, cls_mro = cid # m,
                                    cls_dict = ns, cls_struct = flds, cls_signature = fnames\<rparr>
                         in Inr (st\<lparr>st_fields := fs, st_classes := st_classes st @ [cls]\<rparr>, cid)))"

text \<open>\<^verbatim>\<open>type.__new__\<close> on its own, for a class whose metaclass is \<^verbatim>\<open>type\<close>.\<close>

definition type_new ::
    "'v state \<Rightarrow> string \<Rightarrow> nat list \<Rightarrow> (string \<times> 'v attr) list \<Rightarrow> error + ('v state \<times> nat)" where
  "type_new st clsname bases namespace =
     (if \<not> list_all (\<lambda>b. b < length (st_classes st)) bases
      then Inl (NameError clsname)
      else
        (case linearize (st_classes st) (type_bases bases) of
           None \<Rightarrow> Inl (TypeError ''Cannot create a consistent method resolution order'')
         | Some m \<Rightarrow>
             let cid = length (st_classes st);
                 cls = \<lparr>cls_name = clsname, cls_meta = False, cls_mro = cid # m,
                        cls_dict = namespace, cls_struct = [], cls_signature = []\<rparr>
             in Inr (st\<lparr>st_classes := st_classes st @ [cls]\<rparr>, cid)))"

text \<open>
  A class statement that names the metaclass, \<^verbatim>\<open>class C(bases, metaclass=MetaStruct)\<close>:
  \<^verbatim>\<open>__prepare__\<close>, the body, then \<^verbatim>\<open>__new__\<close>.
\<close>

definition metaclass_stmt ::
    "'v state \<Rightarrow> string \<Rightarrow> nat list \<Rightarrow> (string \<times> 'v attr) list \<Rightarrow> error + ('v state \<times> nat)" where
  "metaclass_stmt st clsname bases body = MetaStruct_new st clsname bases (exec_body body)"

text \<open>
  A class statement that names none, \<^verbatim>\<open>class C(bases)\<close>: the metaclass is \<^verbatim>\<open>MetaStruct\<close>
  when one of the bases was made by it, and \<^verbatim>\<open>type\<close> otherwise, whose namespace is a
  plain dictionary.
\<close>

definition class_stmt ::
    "'v state \<Rightarrow> string \<Rightarrow> nat list \<Rightarrow> (string \<times> 'v attr) list \<Rightarrow> error + ('v state \<times> nat)" where
  "class_stmt st clsname bases body =
     (if list_ex (is_meta (st_classes st)) bases then metaclass_stmt st clsname bases body
      else type_new st clsname bases (exec_body body))"

subsubsection \<open>\_\_call\_\_ and Struct.\_\_new\_\_\<close>

text \<open>
  \<^verbatim>\<open>cls._signature.bind(*args, **kargs)\<close>: every parameter is positional-or-keyword and has
  no default. \<open>None\<close> is the TypeError of \<^verbatim>\<open>bind\<close> (too many positional arguments, two
  values for a parameter, a parameter without a value, an unknown keyword); which of them
  is lost, since \<^verbatim>\<open>Struct.__new__\<close> re-raises. Keyword arguments are a dictionary, given as
  its items.
\<close>

definition sig_bind ::
    "string option list \<Rightarrow> 'v list \<Rightarrow> (string \<times> 'v) list \<Rightarrow> (string option \<rightharpoonup> 'v) option" where
  "sig_bind ps args kargs =
     (let n = length args;
          kw = map (\<lambda>(k, v). (Some k, v)) kargs
      in if n > length ps then None
         else if list_ex (\<lambda>k. k \<in> set (take n ps)) (map fst kw) then None
         else if list_ex (\<lambda>p. p \<notin> set (map fst kw)) (drop n ps) then None
         else if list_ex (\<lambda>k. k \<notin> set ps) (map fst kw) then None
         else Some (map_of (zip (take n ps) args @ kw)))"

text \<open>
  \<^verbatim>\<open>setattr(inst, f.name, value)\<close> for a field \<open>f\<close> of the schema. Names of a schema are
  unique, so the attribute found under \<open>f.name\<close> is the descriptor \<open>f\<close>, and Python calls
  its \<^verbatim>\<open>__set__\<close>: the check of its class, then \<^verbatim>\<open>Field.__set__\<close>.
\<close>

definition field_setattr :: "'v state \<Rightarrow> nat \<Rightarrow> 'v inst \<Rightarrow> 'v \<Rightarrow> error + 'v inst" where
  "field_setattr st r inst v =
     (case deref (st_fields st) r of
        None \<Rightarrow> Inl (AttributeError ''no such field'')
      | Some f \<Rightarrow>
          (case fc_check (f_class f) v of
             Inl e \<Rightarrow> Inl e
           | Inr v' \<Rightarrow> Field_set st f inst v'))"


text \<open>
  \<^verbatim>\<open>for f in cls._struct: setattr(inst, f.name, boundargs.arguments[f.name])\<close>
\<close>

fun set_fields :: "'v state \<Rightarrow> (string option \<rightharpoonup> 'v) \<Rightarrow> nat list \<Rightarrow> 'v inst \<Rightarrow> error + 'v inst" where
  "set_fields st bound [] inst = Inr inst"
| "set_fields st bound (r # rs) inst =
     (case bound (name_of (st_fields st) r) of
        None \<Rightarrow> Inl (KeyError (name_of (st_fields st) r))
      | Some v \<Rightarrow>
          (case field_setattr st r inst v of
             Inl e \<Rightarrow> Inl e
           | Inr inst' \<Rightarrow> set_fields st bound rs inst'))"

text \<open>\<^verbatim>\<open>except TypeError as exc: raise TypeError('Error constructing ' + cls.__name__)\<close>\<close>

fun reraise :: "string \<Rightarrow> error + 'a \<Rightarrow> error + 'a" where
  "reraise n (Inl (TypeError m)) = Inl (TypeError (''Error constructing '' @ n))"
| "reraise n r = r"

text \<open>
  \<^verbatim>\<open>inst.name = value\<close> for a boolean value, as in \<^verbatim>\<open>inst._initialized = False\<close>: when
  the classes of the resolution order bind the name to a data descriptor, its \<^verbatim>\<open>__set__\<close>
  takes the value; otherwise it goes into the instance's dictionary.
\<close>

definition setattr_bool :: "'v state \<Rightarrow> 'v inst \<Rightarrow> string \<Rightarrow> bool \<Rightarrow> error + 'v inst" where
  "setattr_bool st inst n b =
     (case class_attr st (inst_cls inst) n of
        Some (AFieldObj r) \<Rightarrow> field_setattr st r inst (st_bool st b)
      | _ \<Rightarrow> Inr (inst\<lparr>inst_dict := (inst_dict inst)(Some n \<mapsto> st_bool st b)\<rparr>))"

text \<open>
  \<^verbatim>\<open>Struct.__new__(cls, *args, **kargs)\<close>. \<^verbatim>\<open>super().__new__(cls)\<close> is \<^verbatim>\<open>object.__new__\<close>: an
  instance with an empty dictionary. \<^verbatim>\<open>inst._initialized = False\<close> stands before the
  \<^verbatim>\<open>try\<close>.
\<close>

definition Struct_new ::
    "'v state \<Rightarrow> nat \<Rightarrow> 'v list \<Rightarrow> (string \<times> 'v) list \<Rightarrow> error + 'v inst" where
  "Struct_new st c args kargs =
     (if \<not> c < length (st_classes st) then Inl (NameError ''no such class'')
      else
        let cls = st_classes st ! c
        in case setattr_bool st \<lparr>inst_cls = c, inst_dict = Map.empty\<rparr> ''_initialized'' False of
             Inl e \<Rightarrow> Inl e
           | Inr inst \<Rightarrow>
               reraise (cls_name cls)
                 (case sig_bind (cls_signature cls) args kargs of
                    None \<Rightarrow> Inl (TypeError ''bind'')
                  | Some bound \<Rightarrow> set_fields st bound (cls_struct cls) inst))"

text \<open>
  \<^verbatim>\<open>object.__new__(cls, *args, **kargs)\<close>, which a class made by \<^verbatim>\<open>MetaStruct\<close> resolves to
  when \<^verbatim>\<open>Struct\<close> is not among its ancestors: it refuses arguments unless some class of
  the order defines \<^verbatim>\<open>__init__\<close>.
\<close>

definition object_new ::
    "'v state \<Rightarrow> nat \<Rightarrow> 'v list \<Rightarrow> (string \<times> 'v) list \<Rightarrow> error + 'v inst" where
  "object_new st c args kargs =
     (if \<not> c < length (st_classes st) then Inl (NameError ''no such class'')
      else if (args \<noteq> [] \<or> kargs \<noteq> []) \<and> class_attr st c ''__init__'' = None
      then Inl (TypeError (cls_name (st_classes st ! c) @ ''() takes no arguments''))
      else Inr \<lparr>inst_cls = c, inst_dict = Map.empty\<rparr>)"

text \<open>
  \<^verbatim>\<open>MetaStruct.__call__\<close>: \<^verbatim>\<open>type.__call__\<close> runs the \<^verbatim>\<open>__new__\<close> and then the \<^verbatim>\<open>__init__\<close> the
  class resolves to (\<^verbatim>\<open>object.__init__\<close>, which does nothing, when no class of the order
  defines one); then \<^verbatim>\<open>inst._initialized = True\<close>.
\<close>

definition run_init ::
    "'v state \<Rightarrow> 'v inst \<Rightarrow> 'v list \<Rightarrow> (string \<times> 'v) list \<Rightarrow> error + 'v inst" where
  "run_init st inst args kargs =
     (case class_attr st (inst_cls inst) ''__init__'' of
        None \<Rightarrow> Inr inst
      | Some (AInit f) \<Rightarrow> f inst args kargs
      | Some _ \<Rightarrow> Inl (TypeError ''object is not callable''))"

definition MetaStruct_call ::
    "'v state \<Rightarrow> nat \<Rightarrow> 'v list \<Rightarrow> (string \<times> 'v) list \<Rightarrow> error + 'v inst" where
  "MetaStruct_call st c args kargs =
     (case (if issubclass st c Struct then Struct_new st c args kargs
            else object_new st c args kargs) of
        Inl e \<Rightarrow> Inl e
      | Inr inst \<Rightarrow>
          (case run_init st inst args kargs of
             Inl e \<Rightarrow> Inl e
           | Inr inst' \<Rightarrow> setattr_bool st inst' ''_initialized'' True))"

subsection \<open>Struct\<close>

subsubsection \<open>\_\_eq\_\_\<close>






subsubsection \<open>\_\_hash\_\_\<close>





subsubsection \<open>\_\_iter\_\_, \_\_reduce\_ex\_\_ and \_replace\<close>









subsubsection \<open>The classes object and Struct\<close>

text \<open>
  The interpreter starts with \<^verbatim>\<open>object\<close>, class 0; its methods are the defaults the
  functions above fall back to, so its namespace is empty here. The module adds
  \<^verbatim>\<open>class Struct(metaclass=MetaStruct)\<close>, class 1: no bases, \<^verbatim>\<open>_immutable = True\<close> and
  methods, none of them a field and none named \<^verbatim>\<open>__init__\<close>.
\<close>

definition builtins :: "('v \<Rightarrow> bool) \<Rightarrow> (bool \<Rightarrow> 'v) \<Rightarrow> 'v state" where
  "builtins t b =
     \<lparr>st_truth = t, st_bool = b, st_fields = [],
      st_classes = [\<lparr>cls_name = ''object'', cls_meta = False, cls_mro = [0], cls_dict = [],
                     cls_struct = [], cls_signature = []\<rparr>]\<rparr>"

definition Struct_body :: "(string \<times> 'v attr) list" where
  "Struct_body = [(''_immutable'', AValue True)]"

definition module_state :: "('v \<Rightarrow> bool) \<Rightarrow> (bool \<Rightarrow> 'v) \<Rightarrow> 'v state" where
  "module_state t b =
     (builtins t b)\<lparr>st_classes := st_classes (builtins t b) @
        [\<lparr>cls_name = ''Struct'', cls_meta = True, cls_mro = [1, 0], cls_dict = Struct_body,
          cls_struct = [], cls_signature = []\<rparr>]\<rparr>"

subsection \<open>The sequence validator\<close>

text \<open>
  Modelled from the spec: the validator \<^verbatim>\<open>checktype_seq\<close> of the module \<^verbatim>\<open>type.py\<close>, which
  the typed field calls on every write, is not among the sources; only its tests are.
  The spec (4.4, 4.5): each element is checked against the type by position, and the
  first failure reports the 0-based index and the offending element; with
  \<^verbatim>\<open>no_duplicates\<close>, scan for the first repeated element (by equality) and report its
  value and the position of the second occurrence; on success the sequence is stored.
  The type is given by its membership test. The tests of what is no sequence at all (a
  string, a generator, a scalar) come before and are left out: the argument here is a
  sequence.
\<close>

datatype 'a seq_failure = ElementType nat 'a | Duplicate 'a nat

fun find_type_error :: "('a \<Rightarrow> bool) \<Rightarrow> nat \<Rightarrow> 'a list \<Rightarrow> (nat \<times> 'a) option" where
  "find_type_error kind i [] = None"
| "find_type_error kind i (x # xs) =
     (if kind x then find_type_error kind (i + 1) xs else Some (i, x))"

fun find_dup :: "'a list \<Rightarrow> nat \<Rightarrow> 'a list \<Rightarrow> ('a \<times> nat) option" where
  "find_dup seen i [] = None"
| "find_dup seen i (x # xs) =
     (if x \<in> set seen then Some (x, i) else find_dup (seen @ [x]) (i + 1) xs)"

definition checktype_seq :: "('a \<Rightarrow> bool) \<Rightarrow> bool \<Rightarrow> 'a list \<Rightarrow> 'a seq_failure + 'a list" where
  "checktype_seq kind nodups xs =
     (case find_type_error kind 0 xs of
        Some (i, x) \<Rightarrow> Inl (ElementType i x)
      | None \<Rightarrow>
          if nodups then
            (case find_dup [] 0 xs of
               Some (x, i) \<Rightarrow> Inl (Duplicate x i)
             | None \<Rightarrow> Inr xs)
          else Inr xs)"

text \<open>
  The message the test \<^verbatim>\<open>test_checktype_seq\<close> expects for a duplicate, for integer
  elements.
\<close>

fun show_nat :: "nat \<Rightarrow> string" where
  "show_nat n =
     (if n < 10 then [''0123456789'' ! n]
      else show_nat (n div 10) @ [''0123456789'' ! (n mod 10)])"

definition show_int :: "int \<Rightarrow> string" where
  "show_int i = (if i < 0 then ''-'' @ show_nat (nat (- i)) else show_nat (nat i))"

definition duplicate_message :: "int \<Rightarrow> nat \<Rightarrow> string" where
  "duplicate_message x i = ''Duplicate element '' @ show_int x @ '' at position '' @ show_nat i"

subsection \<open>Example declarations\<close>

text \<open>
  The states some class statements leave behind, written out; the lemmas of the next
  section check each against \<open>class_stmt\<close>. \<open>example_hash\<close> stands for the
  interpreter's \<^verbatim>\<open>hash\<close> on hashable values: on integers and booleans it is CPython's
  (the value modulo \<open>2^61 - 1\<close> with its sign, and -2 for -1), on the others a constant.
  \<open>py_module\<close> is the module's state over the values above.
\<close>

definition int_hash :: "int \<Rightarrow> int" where
  "int_hash n =
     (let h = (if n < 0 then - ((- n) mod 2305843009213693951) else n mod 2305843009213693951)
      in if h = - 1 then - 2 else h)"

definition example_hash :: "pyval \<Rightarrow> int" where
  "example_hash v =
     (case v of PyInt n \<Rightarrow> int_hash n | PyBool b \<Rightarrow> (if b then 1 else 0) | _ \<Rightarrow> 0)"

definition py_module :: "pyval state" where
  "py_module = module_state py_truth PyBool"

text \<open>\<^verbatim>\<open>class Point(Struct): x = Field; y = Field\<close> (class 2)\<close>

definition Point_body :: "(string \<times> pyval attr) list" where
  "Point_body =
     [(''x'', AFieldClass (Field example_hash)), (''y'', AFieldClass (Field example_hash))]"

definition Point_state :: "pyval state" where
  "Point_state =
     py_module\<lparr>
      st_fields := [\<lparr>f_class = Field example_hash, f_name = None\<rparr>,
                   \<lparr>f_class = Field example_hash, f_name = Some ''x''\<rparr>,
                   \<lparr>f_class = Field example_hash, f_name = None\<rparr>,
                   \<lparr>f_class = Field example_hash, f_name = Some ''y''\<rparr>],
      st_classes := st_classes py_module @
                   [\<lparr>cls_name = ''Point'', cls_meta = True, cls_mro = [2, 1, 0],
                     cls_dict = [(''x'', AFieldObj 1), (''y'', AFieldObj 3)],
                     cls_struct = [1, 3], cls_signature = [Some ''x'', Some ''y'']\<rparr>]\<rparr>"

text \<open>The instance \<^verbatim>\<open>Point(a, b)\<close>.\<close>

definition point :: "pyval \<Rightarrow> pyval \<Rightarrow> pyval inst" where
  "point a b =
     \<lparr>inst_cls = 2,
      inst_dict = [Some ''_initialized'' \<mapsto> PyBool True, Some ''x'' \<mapsto> a, Some ''y'' \<mapsto> b]\<rparr>"

text \<open>The same instance after \<^verbatim>\<open>p._immutable = False\<close>.\<close>

definition thawed :: "pyval \<Rightarrow> pyval \<Rightarrow> pyval inst" where
  "thawed a b =
     \<lparr>inst_cls = 2,
      inst_dict = [Some ''_initialized'' \<mapsto> PyBool True, Some ''x'' \<mapsto> a, Some ''y'' \<mapsto> b,
                   Some ''_immutable'' \<mapsto> PyBool False]\<rparr>"

text \<open>\<^verbatim>\<open>class Cell(Struct): _immutable = False; x = Field\<close> (class 2)\<close>

definition Cell_body :: "(string \<times> pyval attr) list" where
  "Cell_body = [(''_immutable'', AValue False), (''x'', AFieldClass (Field example_hash))]"

definition Cell_state :: "pyval state" where
  "Cell_state =
     py_module\<lparr>
      st_fields := [\<lparr>f_class = Field example_hash, f_name = None\<rparr>,
                   \<lparr>f_class = Field example_hash, f_name = Some ''x''\<rparr>],
      st_classes := st_classes py_module @
                   [\<lparr>cls_name = ''Cell'', cls_meta = True, cls_mro = [2, 1, 0],
                     cls_dict = [(''_immutable'', AValue False), (''x'', AFieldObj 1)],
                     cls_struct = [1], cls_signature = [Some ''x'']\<rparr>]\<rparr>"

definition cell :: "pyval \<Rightarrow> pyval inst" where
  "cell a = \<lparr>inst_cls = 2, inst_dict = [Some ''_initialized'' \<mapsto> PyBool True, Some ''x'' \<mapsto> a]\<rparr>"

text \<open>A module: class statements run one after the other.\<close>

fun run_module ::
    "'v state \<Rightarrow> (string \<times> nat list \<times> (string \<times> 'v attr) list) list \<Rightarrow> error + 'v state" where
  "run_module st [] = Inr st"
| "run_module st ((n, bases, body) # ds) =
     (case class_stmt st n bases body of
        Inl e \<Rightarrow> Inl e
      | Inr (st', c) \<Rightarrow> run_module st' ds)"

text \<open>
  After \<^verbatim>\<open>Point\<close> (class 2):
  \<^verbatim>\<open>class Point3(Point): _inherit_fields = True; z = Field\<close> (class 3),
  \<^verbatim>\<open>class Named(Point): _inherit_fields = True\<close> (class 4) and
  \<^verbatim>\<open>class Other(Struct): x = Field; y = Field\<close> (class 5).
\<close>

definition Shapes_decls :: "(string \<times> nat list \<times> (string \<times> pyval attr) list) list" where
  "Shapes_decls =
     [(''Point'', [Struct], Point_body),
      (''Point3'', [2],
         [(''_inherit_fields'', AValue True), (''z'', AFieldClass (Field example_hash))]),
      (''Named'', [2], [(''_inherit_fields'', AValue True)]),
      (''Other'', [Struct], Point_body)]"

definition Point3_state :: "pyval state" where
  "Point3_state =
     Point_state\<lparr>
      st_fields := st_fields Point_state @
                  [\<lparr>f_class = Field example_hash, f_name = None\<rparr>,
                   \<lparr>f_class = Field example_hash, f_name = Some ''z''\<rparr>],
      st_classes := st_classes Point_state @
                   [\<lparr>cls_name = ''Point3'', cls_meta = True, cls_mro = [3, 2, 1, 0],
                     cls_dict = [(''_inherit_fields'', AValue True), (''z'', AFieldObj 5)],
                     cls_struct = [1, 3, 5],
                     cls_signature = [Some ''x'', Some ''y'', Some ''z'']\<rparr>]\<rparr>"

definition Shapes_state :: "pyval state" where
  "Shapes_state =
     Point3_state\<lparr>
      st_fields := st_fields Point3_state @
                  [\<lparr>f_class = Field example_hash, f_name = None\<rparr>,
                   \<lparr>f_class = Field example_hash, f_name = Some ''x''\<rparr>,
                   \<lparr>f_class = Field example_hash, f_name = None\<rparr>,
                   \<lparr>f_class = Field example_hash, f_name = Some ''y''\<rparr>],
      st_classes := st_classes Point3_state @
                   [\<lparr>cls_name = ''Named'', cls_meta = True, cls_mro = [4, 2, 1, 0],
                     cls_dict = [(''_inherit_fields'', AValue True)],
                     cls_struct = [1, 3], cls_signature = [Some ''x'', Some ''y'']\<rparr>,
                    \<lparr>cls_name = ''Other'', cls_meta = True, cls_mro = [5, 1, 0],
                     cls_dict = [(''x'', AFieldObj 7), (''y'', AFieldObj 9)],
                     cls_struct = [7, 9], cls_signature = [Some ''x'', Some ''y'']\<rparr>]\<rparr>"

text \<open>
  After \<^verbatim>\<open>Point\<close>, a class that \<^verbatim>\<open>type\<close> makes and a subclass of both:
  \<^verbatim>\<open>class Loud: _immutable = False\<close> (class 3) and
  \<^verbatim>\<open>class Soft(Loud, Point): _inherit_fields = True\<close> (class 4).
\<close>

definition Mixin_decls :: "(string \<times> nat list \<times> (string \<times> pyval attr) list) list" where
  "Mixin_decls =
     [(''Loud'', [], [(''_immutable'', AValue False)]),
      (''Soft'', [3, 2], [(''_inherit_fields'', AValue True)])]"

definition Mixin_state :: "pyval state" where
  "Mixin_state =
     Point_state\<lparr>
      st_classes := st_classes Point_state @
                   [\<lparr>cls_name = ''Loud'', cls_meta = False, cls_mro = [3, 0],
                     cls_dict = [(''_immutable'', AValue False)],
                     cls_struct = [], cls_signature = []\<rparr>,
                    \<lparr>cls_name = ''Soft'', cls_meta = True, cls_mro = [4, 3, 2, 1, 0],
                     cls_dict = [(''_inherit_fields'', AValue True)],
                     cls_struct = [1, 3], cls_signature = [Some ''x'', Some ''y'']\<rparr>]\<rparr>"

text \<open>
  \<^verbatim>\<open>class Bad(Point): _inherit_fields = True; y = Field; x = Field\<close>: both names are
  inherited and declared.
\<close>

definition Bad_body :: "(string \<times> pyval attr) list" where
  "Bad_body =
     [(''_inherit_fields'', AValue True),
      (''y'', AFieldClass (Field example_hash)), (''x'', AFieldClass (Field example_hash))]"

text \<open>\<^verbatim>\<open>class Twice(Struct): x = Field; x = Field\<close>: one body binds \<^verbatim>\<open>x\<close> twice.\<close>

definition Twice_body :: "(string \<times> pyval attr) list" where
  "Twice_body =
     [(''x'', AFieldClass (Field example_hash)), (''x'', AFieldClass (Field example_hash))]"

definition Twice_state :: "pyval state" where
  "Twice_state =
     py_module\<lparr>
      st_fields := [\<lparr>f_class = Field example_hash, f_name = None\<rparr>,
                   \<lparr>f_class = Field example_hash, f_name = Some ''x''\<rparr>],
      st_classes := st_classes py_module @
                   [\<lparr>cls_name = ''Twice'', cls_meta = True, cls_mro = [2, 1, 0],
                     cls_dict = [(''x'', AFieldObj 1)],
                     cls_struct = [1], cls_signature = [Some ''x'']\<rparr>]\<rparr>"







text \<open>
  A class that takes one of the flags' names for a field:
  \<^verbatim>\<open>class Odd(Struct): _immutable = Field\<close> (class 2).
\<close>

definition Odd_body :: "(string \<times> pyval attr) list" where
  "Odd_body = [(''_immutable'', AFieldClass (Field example_hash))]"

definition Odd_state :: "pyval state" where
  "Odd_state =
     py_module\<lparr>
      st_fields := [\<lparr>f_class = Field example_hash, f_name = None\<rparr>,
                   \<lparr>f_class = Field example_hash, f_name = Some ''_immutable''\<rparr>],
      st_classes := st_classes py_module @
                   [\<lparr>cls_name = ''Odd'', cls_meta = True, cls_mro = [2, 1, 0],
                     cls_dict = [(''_immutable'', AFieldObj 1)],
                     cls_struct = [1], cls_signature = [Some ''_immutable'']\<rparr>]\<rparr>"






subsection \<open>Well-formed states\<close>

text \<open>
  What the class statements keep true of the state: the \<^verbatim>\<open>_struct\<close> of every class holds
  addresses of named descriptors, no two with the same name, \<^verbatim>\<open>_signature\<close> lists these
  names, and every class is in its own resolution order.
\<close>

definition wf_class :: "'v field list \<Rightarrow> 'v struct_class \<Rightarrow> bool" where
  "wf_class fs c \<longleftrightarrow>
     list_all (\<lambda>r. r < length fs \<and> f_name (fs ! r) \<noteq> None) (cls_struct c) \<and>
     distinct (map (name_of fs) (cls_struct c)) \<and>
     cls_signature c = map (name_of fs) (cls_struct c)"

definition wf_state :: "'v state \<Rightarrow> bool" where
  "wf_state st \<longleftrightarrow>
     list_all (wf_class (st_fields st)) (st_classes st) \<and>
     list_all (\<lambda>c. c \<in> set (cls_mro (st_classes st ! c))) [0..<length (st_classes st)]"

text \<open>The names a namespace binds to fields, in order.\<close>

fun is_field :: "'v attr \<Rightarrow> bool" where
  "is_field (AFieldClass fc) = True"
| "is_field (AFieldObj r) = True"
| "is_field a = False"

definition field_keys :: "(string \<times> 'v attr) list \<Rightarrow> string list" where
  "field_keys ns = map fst (filter (\<lambda>(k, a). is_field a) ns)"

text \<open>Every descriptor object a namespace names exists.\<close>

fun attr_ok :: "'v field list \<Rightarrow> 'v attr \<Rightarrow> bool" where
  "attr_ok fs (AFieldObj r) = (r < length fs)"
| "attr_ok fs a = True"

definition ns_ok :: "'v field list \<Rightarrow> (string \<times> 'v attr) list \<Rightarrow> bool" where
  "ns_ok fs ns = list_all (\<lambda>(k, a). attr_ok fs a) ns"

text \<open>
  The names of the merged schema of a class statement: those of the inherited fields,
  when the flag is set, then those the namespace binds to fields.
\<close>

definition merged_names :: "'v state \<Rightarrow> nat list \<Rightarrow> (string \<times> 'v attr) list \<Rightarrow> string option list" where
  "merged_names st bases ns =
     (if inherit_flag ns then map (name_of (st_fields st)) (inherited (st_classes st) bases) else [])
     @ map Some (field_keys ns)"

text \<open>The interpreter's \<^verbatim>\<open>True\<close> is true and its \<^verbatim>\<open>False\<close> is false.\<close>

definition bool_ok :: "'v state \<Rightarrow> bool" where
  "bool_ok st \<longleftrightarrow> st_truth st (st_bool st True) \<and> \<not> st_truth st (st_bool st False)"

text \<open>
  A class that uses the names \<^verbatim>\<open>_immutable\<close> and \<^verbatim>\<open>_initialized\<close> as \<^verbatim>\<open>Struct\<close> does: the
  classes of its resolution order bind \<^verbatim>\<open>_immutable\<close>, and neither name to a descriptor,
  and no field of its schema has one of the two names.
\<close>

fun is_descr :: "'v attr option \<Rightarrow> bool" where
  "is_descr (Some (AFieldObj r)) = True"
| "is_descr a = False"

definition flags_plain :: "'v state \<Rightarrow> nat \<Rightarrow> bool" where
  "flags_plain st c \<longleftrightarrow>
     class_attr st c ''_immutable'' \<noteq> None \<and>
     \<not> is_descr (class_attr st c ''_immutable'') \<and>
     \<not> is_descr (class_attr st c ''_initialized'') \<and>
     list_all (\<lambda>r. name_of (st_fields st) r \<noteq> Some ''_immutable'' \<and>
                  name_of (st_fields st) r \<noteq> Some ''_initialized'')
       (struct_of (st_classes st) c)"

section \<open>Properties\<close>

subsection \<open>Evaluating the examples\<close>

lemmas decl_defs =
  Let_def c3_merge.simps class_stmt_def metaclass_stmt_def MetaStruct_new_def type_new_def
  inherit_flag_def exec_body_def MetaStruct_prepare_def Struct_body_def module_state_def
  builtins_def py_module_def collided_def counter_keys_def linearize_def type_bases_def
  Object_def Struct_def Field_init_def Field_copy_def copy_named_def mro_of_def c3_head_ok_def
  c3_step_def name_of_def deref_def struct_of_def is_meta_def

lemmas call_defs =
  MetaStruct_call_def Struct_new_def object_new_def sig_bind_def run_init_def class_attr_def
  field_setattr_def Field_set_def getattr_truth_def setattr_bool_def Field_get_def
  issubclass_def mro_of_def Struct_def deref_def name_of_def module_state_def builtins_def
  py_module_def Struct_body_def Field_def

lemma Struct_decl:
  "metaclass_stmt (builtins t b) ''Struct'' [] Struct_body = Inr (module_state t b, Struct)"
  by (simp add: decl_defs)

lemma Point_decl: "class_stmt py_module ''Point'' [Struct] Point_body = Inr (Point_state, 2)"
  by (simp add: decl_defs Point_body_def Point_state_def)

lemma Point_call: "MetaStruct_call Point_state 2 [a, b] [] = Inr (point a b)"
  by (simp add: call_defs Point_state_def point_def fun_eq_iff)

lemma Shapes_decl: "run_module py_module Shapes_decls = Inr Shapes_state"
  by (simp add: decl_defs Shapes_decls_def Point_body_def Point_state_def Point3_state_def
      Shapes_state_def)

lemma Cell_decl: "class_stmt py_module ''Cell'' [Struct] Cell_body = Inr (Cell_state, 2)"
  by (simp add: decl_defs Cell_body_def Cell_state_def)

lemma Cell_call: "MetaStruct_call Cell_state 2 [a] [] = Inr (cell a)"
  by (simp add: call_defs Cell_state_def cell_def fun_eq_iff)

lemma Point_flags:
  "getattr_truth Point_state (point a b) ''_immutable'' = Inr True"
  "getattr_truth Point_state (point a b) ''_initialized'' = Inr True"
  "getattr_truth Point_state (thawed a b) ''_immutable'' = Inr False"
  "getattr_truth Point_state (thawed a b) ''_initialized'' = Inr True"
  by (simp_all add: getattr_truth_def class_attr_def Point_state_def point_def thawed_def
      py_module_def module_state_def builtins_def Struct_body_def)

lemma Cell_flags:
  "getattr_truth Cell_state (cell a) ''_immutable'' = Inr False"
  "getattr_truth Cell_state (cell a) ''_initialized'' = Inr True"
  by (simp_all add: getattr_truth_def class_attr_def Cell_state_def cell_def
      py_module_def module_state_def builtins_def Struct_body_def)

text \<open>
  Bases that \<^verbatim>\<open>MetaStruct\<close> did not make take part in the resolution order and in attribute
  lookup, and give no fields: an instance of \<^verbatim>\<open>Soft\<close> has the fields of \<^verbatim>\<open>Point\<close> and is
  mutable, because \<^verbatim>\<open>Loud\<close> comes before \<^verbatim>\<open>Struct\<close>. \<^verbatim>\<open>class G(object, Point)\<close> has no
  consistent order.
\<close>

lemma Mixin_decl:
  "run_module Point_state Mixin_decls = Inr Mixin_state \<and>
   class_attr Mixin_state 4 ''_immutable'' = Some (AValue False) \<and>
   (\<exists>i. MetaStruct_call Mixin_state 4 [PyInt 1, PyInt 2] [] = Inr i \<and>
        getattr_truth Mixin_state i ''_immutable'' = Inr False \<and>
        getattr_truth Mixin_state i ''_initialized'' = Inr True \<and>
        \<not> isl (Field_set Mixin_state (st_fields Mixin_state ! 1) i (PyInt 7))) \<and>
   class_stmt Point_state ''G'' [Object, 2] []
     = Inl (TypeError ''Cannot create a consistent method resolution order'')"
  by (simp add: decl_defs call_defs Mixin_decls_def Mixin_state_def Point_state_def)

subsection \<open>Writing a field\<close>

text \<open>
  The flag of the type is what an instance answers as long as it has no attribute of
  that name itself.
\<close>

lemma getattr_truth_type_flag:
  "class_attr st (inst_cls i) n = Some (AValue b) \<Longrightarrow> inst_dict i (Some n) = None \<Longrightarrow>
   getattr_truth st i n = Inr b"
  by (simp add: getattr_truth_def)

text \<open>
  C2, as the claim states it, fails: \<^verbatim>\<open>p = Point(1, 2)\<close> has finished construction and its
  type is immutable, yet after \<^verbatim>\<open>p._immutable = False\<close> the write \<^verbatim>\<open>p.x = 7\<close> stores 7.
  \<^verbatim>\<open>Field.__set__\<close> reads \<^verbatim>\<open>inst._immutable\<close> through the instance, and \<^verbatim>\<open>_immutable\<close> is no
  field, so the instance's own attribute hides the flag of the type.
\<close>

theorem Field_set_shadowed_flag:
  "MetaStruct_call Point_state 2 [PyInt 1, PyInt 2] [] = Inr (point (PyInt 1) (PyInt 2)) \<and>
   setattr_bool Point_state (point (PyInt 1) (PyInt 2)) ''_immutable'' False
     = Inr (thawed (PyInt 1) (PyInt 2)) \<and>
   class_attr Point_state (inst_cls (thawed (PyInt 1) (PyInt 2))) ''_immutable'' = Some (AValue True) \<and>
   getattr_truth Point_state (thawed (PyInt 1) (PyInt 2)) ''_initialized'' = Inr True \<and>
   Field_set Point_state (st_fields Point_state ! 1) (thawed (PyInt 1) (PyInt 2)) (PyInt 7)
     = Inr (thawed (PyInt 7) (PyInt 2)) \<and>
   Field_get (st_fields Point_state ! 1) (Some (thawed (PyInt 7) (PyInt 2))) = Inr (PyInt 7)"
  by (simp add: call_defs Point_state_def point_def thawed_def fun_eq_iff)

text \<open>
  C2, amended. Let \<^verbatim>\<open>inst._immutable\<close> and \<^verbatim>\<open>inst._initialized\<close> have the truth values \<open>imm\<close>
  and \<open>ini\<close>, as they do on every instance of a Struct type. A write through
  \<^verbatim>\<open>Field.__set__\<close> raises if and only if both are true, and then it raises the
  AttributeError "Struct is immutable". In every other case it stores the value under the
  field's name, and the next read of the field returns it. When the type binds
  \<^verbatim>\<open>_immutable\<close> to a plain value \<open>b\<close>, \<open>imm\<close> is \<open>b\<close> unless the instance itself has an
  attribute of that name, and then it is the truth value of that attribute.
\<close>

theorem Field_set_raises_iff:
  assumes "getattr_truth st i ''_immutable'' = Inr imm"
    and "getattr_truth st i ''_initialized'' = Inr ini"
  shows "(isl (Field_set st f i v) \<longleftrightarrow> imm \<and> ini) \<and>
         (imm \<and> ini \<longrightarrow>
            Field_set st f i v = Inl (AttributeError ''Struct is immutable'')) \<and>
         (\<not> (imm \<and> ini) \<longrightarrow>
            (\<exists>i'. Field_set st f i v = Inr i' \<and>
                  inst_dict i' = (inst_dict i)(f_name f \<mapsto> v) \<and>
                  Field_get f (Some i') = Inr v)) \<and>
         (class_attr st (inst_cls i) ''_immutable'' = Some (AValue b) \<longrightarrow>
            imm = (case inst_dict i (Some ''_immutable'') of
                     None \<Rightarrow> b
                   | Some w \<Rightarrow> st_truth st w))"
proof -
  have a: "imm = (case inst_dict i (Some ''_immutable'') of None \<Rightarrow> b | Some w \<Rightarrow> st_truth st w)"
    if "class_attr st (inst_cls i) ''_immutable'' = Some (AValue b)"
    using assms(1) that by (auto simp: getattr_truth_def split: option.splits)
  from assms a show ?thesis by (simp add: Field_set_def Field_get_def)
qed

theorem Field_set_raises_iff_witness:
  "getattr_truth Cell_state (cell (PyInt 1)) ''_immutable'' = Inr False \<and>
   getattr_truth Cell_state (cell (PyInt 1)) ''_initialized'' = Inr True \<and>
   (\<exists>i'. Field_set Cell_state (st_fields Cell_state ! 1) (cell (PyInt 1)) (PyInt 7) = Inr i' \<and>
         Field_get (st_fields Cell_state ! 1) (Some i') = Inr (PyInt 7)) \<and>
   getattr_truth Point_state (point (PyInt 1) (PyInt 2)) ''_immutable'' = Inr True \<and>
   getattr_truth Point_state (point (PyInt 1) (PyInt 2)) ''_initialized'' = Inr True \<and>
   Field_set Point_state (st_fields Point_state ! 1) (point (PyInt 1) (PyInt 2)) (PyInt 7)
     = Inl (AttributeError ''Struct is immutable'') \<and>
   getattr_truth Point_state (thawed (PyInt 1) (PyInt 2)) ''_immutable'' = Inr False \<and>
   \<not> isl (Field_set Point_state (st_fields Point_state ! 1) (thawed (PyInt 1) (PyInt 2)) (PyInt 7))"
  using
    Field_set_raises_iff [OF Cell_flags [of "PyInt 1"],
      where f = "st_fields Cell_state ! 1" and v = "PyInt 7" and b = False]
    Field_set_raises_iff [OF Point_flags(1,2) [of "PyInt 1" "PyInt 2"],
      where f = "st_fields Point_state ! 1" and v = "PyInt 7" and b = True]
    Field_set_raises_iff [OF Point_flags(3,4) [of "PyInt 1" "PyInt 2"],
      where f = "st_fields Point_state ! 1" and v = "PyInt 7" and b = True]
    Cell_flags [of "PyInt 1"] Point_flags [of "PyInt 1" "PyInt 2"]
  by auto

subsection \<open>The duplicate scan\<close>

lemma find_type_error_None: "find_type_error kind i xs = None \<longleftrightarrow> list_all kind xs"
  by (induction xs arbitrary: i) auto

lemma find_dup_None:
  "find_dup seen i xs = None \<longleftrightarrow> distinct xs \<and> set xs \<inter> set seen = {}"
  by (induction xs arbitrary: seen i) auto

lemma find_dup_Some:
  "find_dup seen i xs = Some (x, j) \<longleftrightarrow>
     (\<exists>k. j = i + k \<and> k < length xs \<and> xs ! k = x \<and> x \<in> set seen \<union> set (take k xs) \<and>
          distinct (take k xs) \<and> set (take k xs) \<inter> set seen = {})"
proof (induction xs arbitrary: seen i)
  case Nil
  then show ?case by simp
next
  case (Cons a xs)
  show ?case
  proof (cases "a \<in> set seen")
    case True
    have "(\<exists>k. j = i + k \<and> k < length (a # xs) \<and> (a # xs) ! k = x \<and>
             x \<in> set seen \<union> set (take k (a # xs)) \<and>
             distinct (take k (a # xs)) \<and> set (take k (a # xs)) \<inter> set seen = {})
          \<longleftrightarrow> (j = i \<and> a = x)" (is "?L \<longleftrightarrow> ?R")
    proof
      assume ?L
      then obtain k where k: "j = i + k" "k < length (a # xs)" "(a # xs) ! k = x"
        "set (take k (a # xs)) \<inter> set seen = {}" by blast
      from k(4) True have "k = 0" by (cases k) auto
      with k show ?R by simp
    next
      assume ?R
      with True show ?L by (intro exI [of _ 0]) simp
    qed
    with True show ?thesis by auto
  next
    case False
    have "(\<exists>k. j = i + k \<and> k < length (a # xs) \<and> (a # xs) ! k = x \<and>
             x \<in> set seen \<union> set (take k (a # xs)) \<and>
             distinct (take k (a # xs)) \<and> set (take k (a # xs)) \<inter> set seen = {})
          \<longleftrightarrow> (\<exists>k. j = (i + 1) + k \<and> k < length xs \<and> xs ! k = x \<and>
             x \<in> set (seen @ [a]) \<union> set (take k xs) \<and>
             distinct (take k xs) \<and> set (take k xs) \<inter> set (seen @ [a]) = {})"
      (is "?L \<longleftrightarrow> ?R")
    proof
      assume ?L
      then obtain k where k: "j = i + k" "k < length (a # xs)" "(a # xs) ! k = x"
        "x \<in> set seen \<union> set (take k (a # xs))" "distinct (take k (a # xs))"
        "set (take k (a # xs)) \<inter> set seen = {}" by blast
      from k(3,4) False have "k \<noteq> 0" by (cases k) auto
      then obtain k' where k': "k = Suc k'" by (cases k) auto
      with k show ?R by (intro exI [of _ k']) auto
    next
      assume ?R
      then obtain k where k: "j = (i + 1) + k" "k < length xs" "xs ! k = x"
        "x \<in> set (seen @ [a]) \<union> set (take k xs)" "distinct (take k xs)"
        "set (take k xs) \<inter> set (seen @ [a]) = {}" by blast
      with False show ?L by (intro exI [of _ "Suc k"]) auto
    qed
    with False Cons.IH [of "seen @ [a]" "i + 1"] show ?thesis by simp
  qed
qed

text \<open>
  C9. On a sequence whose elements all have the required type, validation with
  no-duplicates fails with the duplicate \<open>x\<close> at position \<open>j\<close> exactly when \<open>j\<close> is the
  0-based position of the first element that occurred before (so \<open>j\<close> is the position of
  a second occurrence, and nothing is repeated before it), and \<open>x\<close> is that element; it
  accepts the sequence exactly when no element is repeated.
\<close>

theorem checktype_seq_nodups:
  assumes "list_all kind xs"
  shows "(checktype_seq kind True xs = Inl (Duplicate x j) \<longleftrightarrow>
            j < length xs \<and> xs ! j = x \<and> x \<in> set (take j xs) \<and> distinct (take j xs)) \<and>
         (checktype_seq kind True xs = Inr xs \<longleftrightarrow> distinct xs) \<and>
         (isl (checktype_seq kind True xs) \<longleftrightarrow> \<not> distinct xs)"
proof -
  from assms have t: "find_type_error kind 0 xs = None"
    by (simp add: find_type_error_None)
  have a: "checktype_seq kind True xs = Inl (Duplicate x j) \<longleftrightarrow> find_dup [] 0 xs = Some (x, j)"
    by (auto simp: checktype_seq_def t split: option.splits)
  have b: "checktype_seq kind True xs = Inr xs \<longleftrightarrow> find_dup [] 0 xs = None"
    by (auto simp: checktype_seq_def t split: option.splits)
  have c: "isl (checktype_seq kind True xs) \<longleftrightarrow> find_dup [] 0 xs \<noteq> None"
    by (auto simp: checktype_seq_def t split: option.splits)
  show ?thesis unfolding a b c by (auto simp: find_dup_Some find_dup_None)
qed

text \<open>The two sequences of the tests: \<^verbatim>\<open>[5, 3, 5, 8]\<close> and \<^verbatim>\<open>[5, 3, 8]\<close>.\<close>

theorem checktype_seq_nodups_witness:
  "list_all (\<lambda>x::int. True) [5, 3, 5, 8] \<and>
   checktype_seq (\<lambda>x::int. True) True [5, 3, 5, 8] = Inl (Duplicate 5 2) \<and>
   duplicate_message 5 2 = ''Duplicate element 5 at position 2'' \<and>
   checktype_seq (\<lambda>x::int. True) True [5, 3, 8] = Inr [5, 3, 8]"
  using checktype_seq_nodups [of "\<lambda>x::int. True" "[5, 3, 5, 8]" 5 2]
        checktype_seq_nodups [of "\<lambda>x::int. True" "[5, 3, 8]" 5 2]
  by (simp add: duplicate_message_def show_int_def)

subsection \<open>Hashing\<close>












subsection \<open>Equality\<close>





subsection \<open>The class statement\<close>

lemma name_of_append: "r < length fs \<Longrightarrow> name_of (fs @ ys) r = name_of fs r"
  by (simp add: name_of_def deref_def nth_append)

lemma copy_named_eq:
  "copy_named fs r0 k = (fs @ [\<lparr>f_class = f_class (fs ! r0), f_name = Some k\<rparr>], length fs)"
  by (simp add: copy_named_def Field_copy_def Field_init_def)

lemma as_field_Some:
  "as_field fs k a = Inr (Some (fs1, r0)) \<Longrightarrow> (\<exists>ys. fs1 = fs @ ys) \<and> r0 < length fs1 \<and> is_field a"
  by (cases a) (auto simp: Field_init_def split: if_splits)

lemma as_field_None: "as_field fs k a = Inr None \<Longrightarrow> \<not> is_field a"
  by (cases a) (auto split: if_splits)

lemma as_field_ok: "attr_ok fs a \<Longrightarrow> \<not> isl (as_field fs k a)"
  by (cases a) auto

lemma attr_ok_append: "attr_ok fs a \<Longrightarrow> attr_ok (fs @ ys) a"
  by (cases a) auto

lemma ns_ok_append: "ns_ok fs ns \<Longrightarrow> ns_ok (fs @ ys) ns"
  by (auto simp: ns_ok_def list_all_iff attr_ok_append)

lemma gather_props:
  "gather fs ns = Inr (fs', own, ns') \<Longrightarrow>
     (\<exists>ys. fs' = fs @ ys) \<and>
     map (name_of fs') own = map Some (field_keys ns) \<and>
     list_all (\<lambda>r. length fs \<le> r \<and> r < length fs') own \<and>
     distinct own \<and> map fst ns' = map fst ns"
proof (induction ns arbitrary: fs fs' own ns')
  case Nil
  then show ?case by (simp add: field_keys_def)
next
  case (Cons p ns)
  obtain k a where p: "p = (k, a)" by (cases p)
  show ?case
  proof (cases "as_field fs k a")
    case (Inl e)
    with Cons.prems p show ?thesis by simp
  next
    case (Inr o1)
    show ?thesis
    proof (cases o1)
      case None
      with Inr Cons.prems p obtain ns1 where
        g: "gather fs ns = Inr (fs', own, ns1)" and n: "ns' = (k, a) # ns1"
        by (auto split: sum.splits)
      from None Inr have "\<not> is_field a" by (simp add: as_field_None)
      with Cons.IH [OF g] n p show ?thesis by (simp add: field_keys_def)
    next
      case (Some q)
      obtain fs1 r0 where q: "q = (fs1, r0)" by (cases q)
      let ?fs2 = "fs1 @ [\<lparr>f_class = f_class (fs1 ! r0), f_name = Some k\<rparr>]"
      from Some Inr q Cons.prems p obtain rs ns1 where
        g: "gather ?fs2 ns = Inr (fs', rs, ns1)" and
        o: "own = length fs1 # rs" and n: "ns' = (k, AFieldObj (length fs1)) # ns1"
        by (auto simp: copy_named_eq split: sum.splits)
      from Some Inr q have a: "\<exists>ys. fs1 = fs @ ys" "is_field a"
        using as_field_Some [of fs k a fs1 r0] by auto
      from Cons.IH [OF g] obtain ys where
        ih: "fs' = ?fs2 @ ys" "map (name_of fs') rs = map Some (field_keys ns)"
          "list_all (\<lambda>r. length ?fs2 \<le> r \<and> r < length fs') rs" "distinct rs"
          "map fst ns1 = map fst ns"
        by blast
      from a(1) obtain zs where zs: "fs1 = fs @ zs" by blast
      have 1: "\<exists>ys. fs' = fs @ ys" using ih(1) zs by simp
      have "name_of fs' (length fs1) = Some k"
        unfolding ih(1) by (simp add: name_of_def deref_def nth_append)
      with ih(2) a(2) have 2: "map (name_of fs') own = map Some (field_keys (p # ns))"
        by (simp add: o p field_keys_def)
      have 3: "list_all (\<lambda>r. length fs \<le> r \<and> r < length fs') own"
        using ih(3) ih(1) zs by (auto simp: o list_all_iff)
      have 4: "distinct own" using ih(3,4) by (auto simp: o list_all_iff)
      have 5: "map fst ns' = map fst (p # ns)" using ih(5) by (simp add: n p)
      from 1 2 3 4 5 show ?thesis by blast
    qed
  qed
qed

lemma gather_ok: "ns_ok fs ns \<Longrightarrow> \<not> isl (gather fs ns)"
proof (induction ns arbitrary: fs)
  case Nil
  then show ?case by simp
next
  case (Cons p ns)
  obtain k a where p: "p = (k, a)" by (cases p)
  from Cons.prems p have ok: "attr_ok fs a" "ns_ok fs ns" by (simp_all add: ns_ok_def)
  show ?case
  proof (cases "as_field fs k a")
    case (Inl e)
    with as_field_ok [OF ok(1), of k] show ?thesis by simp
  next
    case (Inr o1)
    show ?thesis
    proof (cases o1)
      case None
      with Inr Cons.IH [OF ok(2)] p show ?thesis by (auto split: sum.splits)
    next
      case (Some q)
      obtain fs1 r0 where q: "q = (fs1, r0)" by (cases q)
      from Some Inr q obtain zs where zs: "fs1 = fs @ zs"
        using as_field_Some [of fs k a fs1 r0] by auto
      let ?fs2 = "fs1 @ [\<lparr>f_class = f_class (fs1 ! r0), f_name = Some k\<rparr>]"
      have "ns_ok ?fs2 ns" using ns_ok_append [OF ok(2), of "zs @ [\<lparr>f_class = f_class (fs1 ! r0), f_name = Some k\<rparr>]"] zs
        by simp
      from Cons.IH [OF this] Some Inr q p show ?thesis
        by (auto simp: copy_named_eq split: sum.splits)
    qed
  qed
qed


lemma distinct_count_list: "distinct xs \<longleftrightarrow> (\<forall>x. count_list xs x \<le> 1)"
proof (induction xs)
  case Nil
  then show ?case by simp
next
  case (Cons a xs)
  show ?case
  proof
    assume d: "distinct (a # xs)"
    then have "count_list xs a = 0" by simp
    with d Cons show "\<forall>x. count_list (a # xs) x \<le> 1" by auto
  next
    assume c: "\<forall>x. count_list (a # xs) x \<le> 1"
    then have "count_list (a # xs) a \<le> 1" by blast
    then have "count_list xs a = 0" by simp
    then have "a \<notin> set xs" by (simp add: count_list_0_iff)
    moreover have "\<forall>x. count_list xs x \<le> 1"
    proof
      fix x
      from c have "count_list (a # xs) x \<le> 1" by blast
      then show "count_list xs x \<le> 1" by (simp split: if_splits)
    qed
    ultimately show "distinct (a # xs)" using Cons by simp
  qed
qed

lemma set_collided: "set (collided xs) = {k. count_list xs k > 1}"
proof -
  have "count_list xs k > 1 \<Longrightarrow> k \<in> set xs" for k
    using count_list_0_iff [of xs k] by auto
  then show ?thesis by (auto simp: collided_def counter_keys_def)
qed

lemma distinct_collided: "distinct (collided xs)"
  by (simp add: collided_def counter_keys_def)

lemma collided_Nil_iff: "collided xs = [] \<longleftrightarrow> distinct xs"
proof -
  have "collided xs = [] \<longleftrightarrow> set (collided xs) = {}" by simp
  also have "\<dots> \<longleftrightarrow> (\<forall>k. count_list xs k \<le> 1)" by (auto simp: set_collided not_less)
  finally show ?thesis by (simp add: distinct_count_list)
qed

lemma inherited_concat:
  "inherited cs bases = concat (map (struct_of cs) (struct_bases cs bases))"
  by (induction bases) (auto simp: struct_bases_def)

lemma MetaStruct_new_Inr:
  assumes "MetaStruct_new st n bases ns = Inr (st', c)"
  obtains fs own ns' m where
    "gather (st_fields st) ns = Inr (fs, own, ns')"
    "list_all (\<lambda>b. b < length (st_classes st)) bases"
    "distinct (map (name_of fs) ((if inherit_flag ns then inherited (st_classes st) bases else []) @ own))"
    "linearize (st_classes st) (type_bases bases) = Some m"
    "c = length (st_classes st)"
    "st' = st\<lparr>st_fields := fs, st_classes := st_classes st @
        [\<lparr>cls_name = n, cls_meta = True, cls_mro = c # m, cls_dict = ns',
          cls_struct = (if inherit_flag ns then inherited (st_classes st) bases else []) @ own,
          cls_signature = map (name_of fs)
            ((if inherit_flag ns then inherited (st_classes st) bases else []) @ own)\<rparr>]\<rparr>"
proof -
  from assms have b: "list_all (\<lambda>b. b < length (st_classes st)) bases"
    by (auto simp: MetaStruct_new_def split: if_splits)
  from assms b obtain fs own ns' where g: "gather (st_fields st) ns = Inr (fs, own, ns')"
    by (auto simp: MetaStruct_new_def Let_def split: sum.splits)
  let ?flds = "(if inherit_flag ns then inherited (st_classes st) bases else []) @ own"
  from assms b g have c: "collided (map (name_of fs) ?flds) = []"
    by (auto simp: MetaStruct_new_def Let_def split: if_splits)
  from assms b g c obtain m where m: "linearize (st_classes st) (type_bases bases) = Some m"
    by (auto simp: MetaStruct_new_def Let_def split: option.splits if_splits)
  from assms b g c m have "c = length (st_classes st)" and
    "st' = st\<lparr>st_fields := fs, st_classes := st_classes st @
        [\<lparr>cls_name = n, cls_meta = True, cls_mro = c # m, cls_dict = ns', cls_struct = ?flds,
          cls_signature = map (name_of fs) ?flds\<rparr>]\<rparr>"
    by (auto simp: MetaStruct_new_def Let_def split: if_splits)
  with that [OF g b _ m] c show thesis by (simp add: collided_Nil_iff)
qed

lemma wf_struct_of:
  "wf_state st \<Longrightarrow> r \<in> set (struct_of (st_classes st) b) \<Longrightarrow>
   r < length (st_fields st) \<and> f_name (st_fields st ! r) \<noteq> None"
  by (auto simp: wf_state_def wf_class_def struct_of_def list_all_iff split: if_splits)

lemma wf_inherited:
  "wf_state st \<Longrightarrow> r \<in> set (inherited (st_classes st) bases) \<Longrightarrow>
   r < length (st_fields st) \<and> f_name (st_fields st ! r) \<noteq> None"
  by (auto simp: inherited_concat dest: wf_struct_of)

lemma wf_class_append:
  "wf_class fs c \<Longrightarrow> wf_class (fs @ ys) c"
proof -
  assume w: "wf_class fs c"
  then have v: "\<forall>r\<in>set (cls_struct c). r < length fs" by (auto simp: wf_class_def list_all_iff)
  then have m: "map (name_of (fs @ ys)) (cls_struct c) = map (name_of fs) (cls_struct c)"
    by (auto simp: name_of_append)
  from w v show ?thesis unfolding wf_class_def m by (auto simp: list_all_iff nth_append)
qed

lemma MetaStruct_new_wf:
  assumes w: "wf_state st" and n: "MetaStruct_new st n bases ns = Inr (st', c)"
  shows "wf_state st'"
proof -
  let ?inh = "if inherit_flag ns then inherited (st_classes st) bases else []"
  from n obtain fs own ns' m where
    g: "gather (st_fields st) ns = Inr (fs, own, ns')" and
    d: "distinct (map (name_of fs) (?inh @ own))" and
    c: "c = length (st_classes st)" and
    s: "st' = st\<lparr>st_fields := fs, st_classes := st_classes st @
        [\<lparr>cls_name = n, cls_meta = True, cls_mro = c # m, cls_dict = ns', cls_struct = ?inh @ own,
          cls_signature = map (name_of fs) (?inh @ own)\<rparr>]\<rparr>"
    by (rule MetaStruct_new_Inr)
  from gather_props [OF g] obtain ys where
    p: "fs = st_fields st @ ys" "map (name_of fs) own = map Some (field_keys ns)"
      "list_all (\<lambda>r. length (st_fields st) \<le> r \<and> r < length fs) own"
    by blast
  have old: "list_all (wf_class fs) (st_classes st)"
    using w unfolding p(1) by (auto simp: wf_state_def list_all_iff wf_class_append)
  have inh: "r < length fs \<and> f_name (fs ! r) \<noteq> None" if "r \<in> set ?inh" for r
    using wf_inherited [OF w, of r bases] that unfolding p(1)
    by (auto simp: nth_append split: if_splits)
  have own: "r < length fs \<and> f_name (fs ! r) \<noteq> None" if "r \<in> set own" for r
  proof -
    from that p(3) have v: "r < length fs" by (auto simp: list_all_iff)
    from that p(2) have "name_of fs r \<in> set (map Some (field_keys ns))"
      by (metis image_eqI set_map)
    with v show ?thesis by (auto simp: name_of_def deref_def)
  qed
  have new: "wf_class fs \<lparr>cls_name = n, cls_meta = True, cls_mro = c # m, cls_dict = ns',
          cls_struct = ?inh @ own, cls_signature = map (name_of fs) (?inh @ own)\<rparr>"
    using d inh own by (auto simp: wf_class_def list_all_iff)
  have mro: "list_all (\<lambda>k. k \<in> set (cls_mro (st_classes st' ! k))) [0..<length (st_classes st')]"
    using w by (auto simp: s c wf_state_def list_all_iff nth_append less_Suc_eq)
  from old new mro show ?thesis by (simp add: wf_state_def s)
qed

lemma type_new_wf:
  assumes w: "wf_state st" and n: "type_new st n bases ns = Inr (st', c)"
  shows "wf_state st'"
proof -
  from n obtain m where
    s: "st' = st\<lparr>st_classes := st_classes st @
        [\<lparr>cls_name = n, cls_meta = False, cls_mro = length (st_classes st) # m, cls_dict = ns,
          cls_struct = [], cls_signature = []\<rparr>]\<rparr>"
    by (auto simp: type_new_def Let_def split: if_splits option.splits)
  from w show ?thesis
    by (auto simp: s wf_state_def wf_class_def list_all_iff nth_append less_Suc_eq)
qed

lemma class_stmt_wf:
  assumes w: "wf_state st" and n: "class_stmt st n bases body = Inr (st', c)"
  shows "wf_state st'"
  using n MetaStruct_new_wf [OF w] type_new_wf [OF w]
  by (auto simp: class_stmt_def metaclass_stmt_def split: if_splits)

lemma wf_module_state: "wf_state (module_state t b)"
  by (simp add: wf_state_def wf_class_def module_state_def builtins_def)

lemma wf_py_module: "wf_state py_module"
  unfolding py_module_def by (rule wf_module_state)


lemma merged_names_fnames:
  assumes w: "wf_state st" and g: "gather (st_fields st) ns = Inr (fs, own, ns')"
  shows "map (name_of fs) ((if inherit_flag ns then inherited (st_classes st) bases else []) @ own)
         = merged_names st bases ns"
proof -
  from gather_props [OF g] obtain ys where
    p: "fs = st_fields st @ ys" "map (name_of fs) own = map Some (field_keys ns)"
    by blast
  have "map (name_of fs) (inherited (st_classes st) bases)
        = map (name_of (st_fields st)) (inherited (st_classes st) bases)"
    unfolding p(1) using wf_inherited [OF w] by (auto simp: name_of_append)
  with p(2) show ?thesis by (simp add: merged_names_def)
qed

lemma merged_names_Some:
  assumes w: "wf_state st"
  shows "None \<notin> set (merged_names st bases ns)"
proof -
  have "name_of (st_fields st) r \<noteq> None" if "r \<in> set (inherited (st_classes st) bases)" for r
    using wf_inherited [OF w that] by (auto simp: name_of_def deref_def)
  then have "None \<notin> set (map (name_of (st_fields st)) (inherited (st_classes st) bases))"
    by (metis (no_types, lifting) imageE set_map)
  then show ?thesis by (auto simp: merged_names_def)
qed

text \<open>
  C7, amended. In a well-formed state, for bases that exist and a namespace whose field
  objects exist: if a name occurs more than once among the names of the merged schema
  (those of the inherited fields followed by those the namespace binds to fields), the
  definition fails with the AttributeError whose message lists the colliding names, and
  these are all the names that occur more than once, each listed once. A namespace binds
  each name once, so a collision needs an inherited field.
\<close>

theorem MetaStruct_new_collision:
  assumes w: "wf_state st"
    and b: "list_all (\<lambda>b. b < length (st_classes st)) bases"
    and o: "ns_ok (st_fields st) ns"
    and nd: "\<not> distinct (merged_names st bases ns)"
  shows "MetaStruct_new st n bases ns =
           Inl (AttributeError (''Struct '' @ n @ '' has colliding field name(s): '' @
                  join '', '' (map the (collided (merged_names st bases ns))))) \<and>
         set (collided (merged_names st bases ns)) = {k. count_list (merged_names st bases ns) k > 1} \<and>
         distinct (collided (merged_names st bases ns)) \<and>
         collided (merged_names st bases ns) \<noteq> [] \<and>
         None \<notin> set (collided (merged_names st bases ns))"
proof -
  let ?names = "merged_names st bases ns"
  from gather_ok [OF o] obtain fs own ns' where g: "gather (st_fields st) ns = Inr (fs, own, ns')"
    by (cases "gather (st_fields st) ns") auto
  note f = merged_names_fnames [OF w g, of bases]
  from nd have c: "collided ?names \<noteq> []" by (simp add: collided_Nil_iff)
  have s: "set (collided ?names) \<subseteq> set ?names" by (auto simp: collided_def counter_keys_def)
  with merged_names_Some [OF w, of bases ns] have n: "None \<notin> set (collided ?names)" by blast
  from b g c have "MetaStruct_new st n bases ns = Inl (collision_error n (collided ?names))"
    by (simp add: MetaStruct_new_def Let_def f del: map_append)
  with n c show ?thesis
    by (simp add: collision_error_def set_collided distinct_collided)
qed

lemma od_set_keys: "map fst (od_set d k v) = (if k \<in> set (map fst d) then map fst d else map fst d @ [k])"
  by (induction d k v rule: od_set.induct) auto

lemma exec_body_keys: "map fst (exec_body body) = counter_keys (map fst body)"
proof (induction body rule: rev_induct)
  case Nil
  then show ?case by (simp add: exec_body_def MetaStruct_prepare_def counter_keys_def)
next
  case (snoc p body)
  obtain k v where p: "p = (k, v)" by (cases p)
  have "exec_body (body @ [p]) = od_set (exec_body body) k v"
    by (simp add: exec_body_def p)
  with snoc show ?case by (auto simp: od_set_keys counter_keys_def p)
qed

lemma exec_body_distinct: "distinct (map fst (exec_body body))"
  by (simp add: exec_body_keys counter_keys_def)

text \<open>
  C8. When \<^verbatim>\<open>MetaStruct.__new__\<close> returns, \<^verbatim>\<open>_struct\<close> of the new class is: with the flag
  set, the \<^verbatim>\<open>_struct\<close> lists of the bases that are Struct classes, in the order of the
  bases, and after them the class's own fields; with the flag unset (or absent), the own
  fields only. The own fields are new descriptor objects, one per name the namespace
  binds to a field, in the order of the namespace. With the flag unset no descriptor of
  any existing class is in the schema.
\<close>

theorem MetaStruct_new_schema:
  assumes "MetaStruct_new st n bases ns = Inr (st', c)"
  shows "\<exists>own.
           cls_struct (st_classes st' ! c) =
             (if inherit_flag ns
              then concat (map (struct_of (st_classes st)) (struct_bases (st_classes st) bases))
              else [])
             @ own \<and>
           map (name_of (st_fields st')) own = map Some (field_keys ns) \<and>
           list_all (\<lambda>r. length (st_fields st) \<le> r \<and> r < length (st_fields st')) own \<and>
           distinct own \<and>
           take (length (st_fields st)) (st_fields st') = st_fields st \<and>
           c = length (st_classes st) \<and>
           take c (st_classes st') = st_classes st \<and>
           (wf_state st \<and> \<not> inherit_flag ns \<longrightarrow>
              (\<forall>b. set (cls_struct (st_classes st' ! c)) \<inter> set (struct_of (st_classes st) b) = {}))"
proof -
  let ?inh = "if inherit_flag ns then inherited (st_classes st) bases else []"
  from assms obtain fs own ns' m where
    g: "gather (st_fields st) ns = Inr (fs, own, ns')" and
    c: "c = length (st_classes st)" and
    s: "st' = st\<lparr>st_fields := fs, st_classes := st_classes st @
        [\<lparr>cls_name = n, cls_meta = True, cls_mro = c # m, cls_dict = ns', cls_struct = ?inh @ own,
          cls_signature = map (name_of fs) (?inh @ own)\<rparr>]\<rparr>"
    by (rule MetaStruct_new_Inr)
  from gather_props [OF g] obtain ys where
    p: "fs = st_fields st @ ys" "map (name_of fs) own = map Some (field_keys ns)"
      "list_all (\<lambda>r. length (st_fields st) \<le> r \<and> r < length fs) own" "distinct own"
    by blast
  have 1: "cls_struct (st_classes st' ! c) =
      (if inherit_flag ns
              then concat (map (struct_of (st_classes st)) (struct_bases (st_classes st) bases))
              else [])
      @ own"
    by (simp add: s c inherited_concat)
  have 2: "set (cls_struct (st_classes st' ! c)) \<inter> set (struct_of (st_classes st) b) = {}"
    if "wf_state st" "\<not> inherit_flag ns" for b
  proof -
    from that(2) have "cls_struct (st_classes st' ! c) = own" by (simp add: s c)
    moreover have "r < length (st_fields st)" if "r \<in> set (struct_of (st_classes st) b)" for r
      using wf_struct_of [OF \<open>wf_state st\<close> that] by simp
    ultimately show ?thesis using p(3) by (fastforce simp: list_all_iff)
  qed
  from 1 2 p show ?thesis by (intro exI [of _ own]) (simp add: s c)
qed


lemma run_module_wf: "wf_state st \<Longrightarrow> run_module st ds = Inr st' \<Longrightarrow> wf_state st'"
proof (induction ds arbitrary: st)
  case Nil
  then show ?case by simp
next
  case (Cons d ds)
  obtain n bases body where d: "d = (n, bases, body)" by (cases d)
  from Cons.prems(2) d obtain st1 c where
    s: "class_stmt st n bases body = Inr (st1, c)" and r: "run_module st1 ds = Inr st'"
    by (auto split: sum.splits)
  from s Cons.prems(1) have "wf_state st1" by (auto intro: class_stmt_wf)
  from Cons.IH [OF this r] show ?case .
qed

lemma wf_Shapes_state: "wf_state Shapes_state"
  using run_module_wf [OF wf_py_module Shapes_decl] .

lemma wf_Point_state: "wf_state Point_state"
  using class_stmt_wf [OF wf_py_module Point_decl] .

text \<open>
  C7, as the claim states it, fails in its last part: a class body that binds \<^verbatim>\<open>x\<close> to a
  field twice makes a class with the one field \<^verbatim>\<open>x\<close>. The namespace is a dictionary, so
  the second binding replaces the first before \<^verbatim>\<open>MetaStruct.__new__\<close> runs.
\<close>

theorem Twice_no_collision:
  "map fst Twice_body = [''x'', ''x''] \<and>
   class_stmt py_module ''Twice'' [Struct] Twice_body = Inr (Twice_state, 2) \<and>
   map (name_of (st_fields Twice_state)) (struct_of (st_classes Twice_state) 2) = [Some ''x'']"
  by (simp add: decl_defs Twice_body_def Twice_state_def)

theorem MetaStruct_new_collision_witness:
  "wf_state Shapes_state \<and>
   list_all (\<lambda>b. b < length (st_classes Shapes_state)) [2] \<and>
   ns_ok (st_fields Shapes_state) (exec_body Bad_body) \<and>
   merged_names Shapes_state [2] (exec_body Bad_body)
     = [Some ''x'', Some ''y'', Some ''y'', Some ''x''] \<and>
   class_stmt Shapes_state ''Bad'' [2] Bad_body
     = Inl (AttributeError ''Struct Bad has colliding field name(s): x, y'')"
proof -
  have e: "exec_body Bad_body = Bad_body"
    by (simp add: exec_body_def MetaStruct_prepare_def Bad_body_def)
  have b: "list_all (\<lambda>b. b < length (st_classes Shapes_state)) [2]"
    by (simp add: Shapes_state_def Point3_state_def Point_state_def py_module_def module_state_def builtins_def)
  have o: "ns_ok (st_fields Shapes_state) (exec_body Bad_body)"
    unfolding e by (simp add: ns_ok_def Bad_body_def)
  have m: "merged_names Shapes_state [2] (exec_body Bad_body)
     = [Some ''x'', Some ''y'', Some ''y'', Some ''x'']"
    unfolding e
    by (simp add: merged_names_def inherit_flag_def Bad_body_def field_keys_def struct_of_def is_meta_def
        name_of_def deref_def Shapes_state_def Point3_state_def Point_state_def py_module_def module_state_def builtins_def)
  have d: "\<not> distinct (merged_names Shapes_state [2] (exec_body Bad_body))"
    unfolding m by simp
  have c: "collided [Some ''x'', Some ''y'', Some ''y'', Some ''x''] = [Some ''x'', Some ''y'']"
    by (simp add: collided_def counter_keys_def)
  from MetaStruct_new_collision [OF wf_Shapes_state b o d, of "''Bad''"] b o m wf_Shapes_state
  show ?thesis unfolding m c
    by (simp add: class_stmt_def metaclass_stmt_def is_meta_def Shapes_state_def Point3_state_def
        Point_state_def py_module_def module_state_def builtins_def)
qed

theorem MetaStruct_new_schema_witness:
  "MetaStruct_new Point_state ''Point3'' [2]
      [(''_inherit_fields'', AValue True), (''z'', AFieldClass (Field example_hash))]
     = Inr (Point3_state, 3) \<and>
   cls_struct (st_classes Point3_state ! 3) = struct_of (st_classes Point_state) 2 @ [5] \<and>
   map (name_of (st_fields Point3_state)) [5] = [Some ''z''] \<and>
   wf_state Point_state \<and>
   MetaStruct_new py_module ''Point'' [Struct] Point_body = Inr (Point_state, 2) \<and>
   \<not> inherit_flag Point_body \<and>
   cls_struct (st_classes Point_state ! 2) = [1, 3]"
proof -
  have a: "MetaStruct_new Point_state ''Point3'' [2]
      [(''_inherit_fields'', AValue True), (''z'', AFieldClass (Field example_hash))]
     = Inr (Point3_state, 3)"
    by (simp add: decl_defs Point_state_def Point3_state_def)
  have b: "MetaStruct_new py_module ''Point'' [Struct] Point_body = Inr (Point_state, 2)"
    by (simp add: decl_defs Point_body_def Point_state_def)
  have f: "\<not> inherit_flag Point_body" by (simp add: inherit_flag_def Point_body_def)
  from MetaStruct_new_schema [OF a] MetaStruct_new_schema [OF b] a b f wf_Point_state
  show ?thesis
    by (simp add: Point3_state_def Point_state_def py_module_def module_state_def builtins_def
        struct_of_def struct_bases_def is_meta_def name_of_def deref_def)
qed

subsection \<open>Rebuilding an instance\<close>





















text \<open>
  The condition on the two names is there because the constructor of a class that binds
  one of them to a field does not get as far as storing anything: \<^verbatim>\<open>Field.__set__\<close> asks
  the descriptor for \<^verbatim>\<open>inst._immutable\<close>, whose value is not yet in the dictionary.
\<close>

lemma flag_named_field:
  "class_stmt py_module ''Odd'' [Struct] Odd_body = Inr (Odd_state, 2) \<and>
   \<not> flags_plain Odd_state 2 \<and>
   MetaStruct_call Odd_state 2 [PyInt 1] [] = Inl (KeyError (Some ''_immutable''))"
  by (simp add: decl_defs call_defs flags_plain_def Odd_body_def Odd_state_def)

lemma bool_ok_py_module: "bool_ok py_module"
  by (simp add: bool_ok_def py_module_def module_state_def builtins_def)




subsection \<open>Schemas as tuples of descriptor objects\<close>













end
